theory Spec2Isabelle
  imports Complex_Main
begin

section \<open>Python values used by \<^verbatim>\<open>app.py\<close>\<close>

text \<open>
  A Python \<^verbatim>\<open>str\<close> is a sequence of Unicode code points, so it is modelled as a list
  of naturals; \<open>lit\<close> turns an ASCII literal of the source into that form.
\<close>

type_synonym pystr = "nat list"

definition lit :: "string \<Rightarrow> pystr" where
  "lit s = map of_char s"

text \<open>
  A float is kept by the number it denotes. The program never computes with floats: it
  tests a parsed body for truth and hands one literal to a constructor.
\<close>

datatype pyfloat = Finite rat | PosInf | NegInf | NaN

text \<open>
  The objects that \<^verbatim>\<open>request.get_json()\<close> and the completion call can return:
  \<^verbatim>\<open>None\<close>, \<^verbatim>\<open>bool\<close>, \<^verbatim>\<open>int\<close>, \<^verbatim>\<open>float\<close>, \<^verbatim>\<open>str\<close>, \<^verbatim>\<open>list\<close> and \<^verbatim>\<open>dict\<close> with
  string keys (an association list; the first binding of a key is the one looked up).
\<close>

datatype pyval =
    PNone
  | PBool bool
  | PInt int
  | PFloat pyfloat
  | PStr pystr
  | PList "pyval list"
  | PDict "(pystr \<times> pyval) list"

datatype py_error =
    FileNotFoundError pystr
  | AttributeError
  | KeyError
  | IndexError
  | TypeError
  | HTTPException nat
  | OtherError pystr

text \<open>Truth value of an object, as \<^verbatim>\<open>or\<close> and \<^verbatim>\<open>not\<close> test it.\<close>

fun py_truthy :: "pyval \<Rightarrow> bool" where
  "py_truthy PNone = False"
| "py_truthy (PBool b) = b"
| "py_truthy (PInt i) = (i \<noteq> 0)"
| "py_truthy (PFloat f) = (f \<noteq> Finite 0)"
| "py_truthy (PStr s) = (s \<noteq> [])"
| "py_truthy (PList xs) = (xs \<noteq> [])"
| "py_truthy (PDict kvs) = (kvs \<noteq> [])"

text \<open>\<^verbatim>\<open>a or b\<close>: the left operand when it is true, the right one otherwise.\<close>

definition py_or :: "pyval \<Rightarrow> pyval \<Rightarrow> pyval" where
  "py_or a b = (if py_truthy a then a else b)"

text \<open>\<^verbatim>\<open>obj.get(key, default)\<close>: only a dict has the method.\<close>

fun py_get :: "pyval \<Rightarrow> pystr \<Rightarrow> pyval \<Rightarrow> py_error + pyval" where
  "py_get (PDict kvs) k d = Inr (case map_of kvs k of None \<Rightarrow> d | Some v \<Rightarrow> v)"
| "py_get _ k d = Inl AttributeError"

text \<open>
  The code points for which \<^verbatim>\<open>str.isspace\<close> holds; \<^verbatim>\<open>str.strip()\<close> without an argument
  removes exactly these from both ends.
\<close>

definition py_isspace :: "nat \<Rightarrow> bool" where
  "py_isspace c \<longleftrightarrow>
     (0x09 \<le> c \<and> c \<le> 0x0D) \<or> (0x1C \<le> c \<and> c \<le> 0x20) \<or> c = 0x85 \<or> c = 0xA0 \<or>
     c = 0x1680 \<or> (0x2000 \<le> c \<and> c \<le> 0x200A) \<or> c = 0x2028 \<or> c = 0x2029 \<or>
     c = 0x202F \<or> c = 0x205F \<or> c = 0x3000"

definition py_lstrip :: "pystr \<Rightarrow> pystr" where
  "py_lstrip s = dropWhile py_isspace s"

definition py_rstrip :: "pystr \<Rightarrow> pystr" where
  "py_rstrip s = rev (dropWhile py_isspace (rev s))"

definition py_strip :: "pystr \<Rightarrow> pystr" where
  "py_strip s = py_rstrip (py_lstrip s)"

text \<open>\<^verbatim>\<open>obj.strip()\<close>: only a string has the method.\<close>

fun strip_method :: "pyval \<Rightarrow> py_error + pystr" where
  "strip_method (PStr s) = Inr (py_strip s)"
| "strip_method _ = Inl AttributeError"

text \<open>\<^verbatim>\<open>obj[key]\<close> with a string key.\<close>

fun getitem_str :: "pyval \<Rightarrow> pystr \<Rightarrow> py_error + pyval" where
  "getitem_str (PDict kvs) k = (case map_of kvs k of None \<Rightarrow> Inl KeyError | Some v \<Rightarrow> Inr v)"
| "getitem_str _ k = Inl TypeError"

text \<open>
  \<^verbatim>\<open>obj[i]\<close> with an integer index: a negative index counts from the end, an index out
  of range raises. A dict with string keys has no integer key; indexing a string gives
  the one-character string.
\<close>

definition seq_index :: "'a list \<Rightarrow> int \<Rightarrow> py_error + 'a" where
  "seq_index xs i =
     (if 0 \<le> i \<and> i < int (length xs) then Inr (xs ! nat i)
      else if i < 0 \<and> - int (length xs) \<le> i then Inr (xs ! nat (int (length xs) + i))
      else Inl IndexError)"

fun getitem_int :: "pyval \<Rightarrow> int \<Rightarrow> py_error + pyval" where
  "getitem_int (PList xs) i = seq_index xs i"
| "getitem_int (PStr s) i = (case seq_index s i of Inl e \<Rightarrow> Inl e | Inr c \<Rightarrow> Inr (PStr [c]))"
| "getitem_int (PDict kvs) i = Inl KeyError"
| "getitem_int _ i = Inl TypeError"

section \<open>The model session and the process state\<close>

text \<open>The keyword arguments of the \<^verbatim>\<open>Llama(...)\<close> constructor call (lines 17 to 23).\<close>

record llama_args =
  model_path :: pystr
  n_ctx :: int
  temperature :: rat
  verbose :: bool
  n_threads :: "int option"

text \<open>The keyword arguments of the completion call \<^verbatim>\<open>llm(...)\<close> (lines 43 to 47).\<close>

record llm_call =
  prompt :: pystr
  max_tokens :: int
  stop :: "pystr list"

text \<open>What reaches the inference library, in order: the recording a stub would make.\<close>

datatype event = Construct llama_args | Invoke llm_call

text \<open>
  The inference library is not part of the repository. A completion is whatever the
  library answers to a call, given everything it was asked before: an object or an
  exception.
\<close>

type_synonym engine = "event list \<Rightarrow> llm_call \<Rightarrow> py_error + pyval"

datatype stream = Console | StringIO

text \<open>
  The module globals that outlive start-up: \<open>llm\<close> (the session, kept by the arguments
  it was built from), \<^verbatim>\<open>sys.stdout\<close> and \<^verbatim>\<open>sys.stderr\<close>, and the recording of the calls
  made to the library.
\<close>

record server =
  llm :: llama_args
  sys_stdout :: stream
  sys_stderr :: stream
  trace :: "event list"

text \<open>
  What the module asks of its host: \<^verbatim>\<open>__file__\<close>, \<^verbatim>\<open>__name__ == '__main__'\<close>,
  \<^verbatim>\<open>os.path.dirname\<close>, \<^verbatim>\<open>os.path.join\<close>, \<^verbatim>\<open>os.path.exists\<close>, \<^verbatim>\<open>os.cpu_count\<close>,
  \<^verbatim>\<open>repr\<close> of a string, whether the \<^verbatim>\<open>Llama\<close> constructor raises, and
  \<^verbatim>\<open>render_template\<close>.
\<close>

record host =
  module_file :: pystr
  is_main :: bool
  dirname :: "pystr \<Rightarrow> pystr"
  path_join :: "pystr \<Rightarrow> pystr list \<Rightarrow> pystr"
  path_exists :: "pystr \<Rightarrow> bool"
  cpu_count :: "int option"
  repr :: "pystr \<Rightarrow> pystr"
  Llama_raises :: "llama_args \<Rightarrow> py_error option"
  render_template :: "pystr \<Rightarrow> py_error + pystr"

section \<open>Start-up (lines 7 to 28)\<close>

definition HERE :: "host \<Rightarrow> pystr" where
  "HERE h = dirname h (module_file h)"

definition MODEL_PATH :: "host \<Rightarrow> pystr" where
  "MODEL_PATH h = path_join h (HERE h) [lit ''models'', lit ''llama-2-7b-chat.Q4_K_M.gguf'']"

definition llm_args :: "host \<Rightarrow> llama_args" where
  "llm_args h =
     \<lparr>model_path = MODEL_PATH h, n_ctx = 2048, temperature = 7 / 10, verbose = False,
      n_threads = cpu_count h\<rparr>"

text \<open>
  Running the module body: the existence check raises before anything is built; the
  streams are redirected around the constructor call and put back after it (not when it
  raises: there is no \<^verbatim>\<open>finally\<close>, and the state is lost with the process).
\<close>

definition module_init :: "host \<Rightarrow> py_error + server" where
  "module_init h =
     (if \<not> path_exists h (MODEL_PATH h)
      then Inl (FileNotFoundError (lit ''Cannot find model at '' @ repr h (MODEL_PATH h)))
      else
        let saved_stdout = Console; saved_stderr = Console;
            redirected = \<lparr>llm = llm_args h, sys_stdout = StringIO, sys_stderr = StringIO,
                          trace = [Construct (llm_args h)]\<rparr>
        in case Llama_raises h (llm_args h) of
             Some e \<Rightarrow> Inl e
           | None \<Rightarrow> Inr (redirected\<lparr>sys_stdout := saved_stdout, sys_stderr := saved_stderr\<rparr>))"

section \<open>The request handlers (lines 30 to 49)\<close>

datatype body = Html pystr | Json pyval

record response =
  status :: nat
  content :: body

text \<open>\<^verbatim>\<open>jsonify(reply=x)\<close>: the object \<^verbatim>\<open>{"reply": x}\<close> with status 200.\<close>

definition jsonify_reply :: "pystr \<Rightarrow> response" where
  "jsonify_reply r = \<lparr>status = 200, content = Json (PDict [(lit ''reply'', PStr r)])\<rparr>"

definition index :: "host \<Rightarrow> py_error + response" where
  "index h =
     (case render_template h (lit ''chat.html'') of
        Inl e \<Rightarrow> Inl e
      | Inr page \<Rightarrow> Inr \<lparr>status = 200, content = Html page\<rparr>)"

text \<open>\<^verbatim>\<open>resp['choices'][0]['text'].strip()\<close> (line 48).\<close>

definition first_choice_text :: "pyval \<Rightarrow> py_error + pystr" where
  "first_choice_text resp =
     (case getitem_str resp (lit ''choices'') of
        Inl e \<Rightarrow> Inl e
      | Inr choices \<Rightarrow>
          (case getitem_int choices 0 of
             Inl e \<Rightarrow> Inl e
           | Inr choice \<Rightarrow>
               (case getitem_str choice (lit ''text'') of
                  Inl e \<Rightarrow> Inl e
                | Inr text \<Rightarrow> strip_method text)))"

text \<open>
  The handler of \<^verbatim>\<open>POST /chat\<close>. Its input is the outcome of \<^verbatim>\<open>request.get_json()\<close>:
  the parsed body, or the exception the framework raises for a body it cannot parse.
  Its result is the response it returns or the exception that leaves it, with the state
  after it. The call to the library is recorded before its answer is looked at.
\<close>

definition chat :: "engine \<Rightarrow> server \<Rightarrow> py_error + pyval \<Rightarrow> (py_error + response) \<times> server" where
  "chat eng s got =
     (case got of
        Inl e \<Rightarrow> (Inl e, s)
      | Inr parsed \<Rightarrow>
          let data = py_or parsed (PDict []) in
          (case py_get data (lit ''message'') (PStr []) of
             Inl e \<Rightarrow> (Inl e, s)
           | Inr m \<Rightarrow>
               (case strip_method m of
                  Inl e \<Rightarrow> (Inl e, s)
                | Inr user_msg \<Rightarrow>
                    if \<not> py_truthy (PStr user_msg) then (Inr (jsonify_reply []), s)
                    else
                      let inst = lit ''[INST] '' @ user_msg @ lit '' [/INST]'';
                          call = \<lparr>prompt = inst, max_tokens = 256, stop = [lit ''[/INST]'']\<rparr>;
                          s' = s\<lparr>trace := trace s @ [Invoke call]\<rparr>
                      in (case eng (trace s) call of
                            Inl e \<Rightarrow> (Inl e, s')
                          | Inr resp \<Rightarrow>
                              (case first_choice_text resp of
                                 Inl e \<Rightarrow> (Inl e, s')
                               | Inr reply \<Rightarrow> (Inr (jsonify_reply reply), s'))))))"

section \<open>Serving (lines 51 to 56)\<close>

datatype request = GetIndex | PostChat "py_error + pyval"

definition dispatch :: "host \<Rightarrow> engine \<Rightarrow> server \<Rightarrow> request \<Rightarrow> (py_error + response) \<times> server" where
  "dispatch h eng s r = (case r of GetIndex \<Rightarrow> (index h, s) | PostChat got \<Rightarrow> chat eng s got)"

text \<open>
  \<^verbatim>\<open>app.run\<close> answers the requests one after another; an exception that leaves a handler
  ends that request only.
\<close>

fun app_run :: "host \<Rightarrow> engine \<Rightarrow> server \<Rightarrow> request list \<Rightarrow> (py_error + response) list \<times> server" where
  "app_run h eng s [] = ([], s)"
| "app_run h eng s (r # rs) =
     (case dispatch h eng s r of
        (out, s') \<Rightarrow> (case app_run h eng s' rs of (outs, s'') \<Rightarrow> (out # outs, s'')))"

text \<open>
  The process: the module body, then the server when the module is the main program
  (on \<^verbatim>\<open>127.0.0.1:8080\<close>; the address and the banner printed before play no part in
  what the handlers do). An exception of the module body ends the process before a
  request is looked at.
\<close>

definition main :: "host \<Rightarrow> engine \<Rightarrow> request list \<Rightarrow> py_error + (py_error + response) list \<times> server" where
  "main h eng rs =
     (case module_init h of
        Inl e \<Rightarrow> Inl e
      | Inr s \<Rightarrow> if is_main h then Inr (app_run h eng s rs) else Inr ([], s))"

section \<open>Observations and stubs\<close>

text \<open>The constructor calls of a recording, in order.\<close>

fun constructions :: "event list \<Rightarrow> llama_args list" where
  "constructions [] = []"
| "constructions (Construct a # es) = a # constructions es"
| "constructions (Invoke c # es) = constructions es"

text \<open>
  Stand-ins for the library and the host, for running the model on concrete inputs: an
  engine that answers every call with one choice of a given text, an engine that raises,
  and a host with eight processors whose model file is there or not.
\<close>

definition stub_engine :: "pystr \<Rightarrow> engine" where
  "stub_engine t tr c = Inr (PDict [(lit ''choices'', PList [PDict [(lit ''text'', PStr t)]])])"

definition failing_engine :: "py_error \<Rightarrow> engine" where
  "failing_engine e tr c = Inl e"

text \<open>An engine that answers one call only and raises on every other.\<close>

definition picky_engine :: "llm_call \<Rightarrow> pystr \<Rightarrow> engine" where
  "picky_engine c0 t tr c =
     (if c = c0 then stub_engine t tr c else Inl (OtherError (lit ''RuntimeError'')))"

definition stub_host :: "bool \<Rightarrow> host" where
  "stub_host present =
     \<lparr>module_file = lit ''app.py'', is_main = True, dirname = (\<lambda>p. []),
      path_join = (\<lambda>a ps. foldl (\<lambda>x y. if x = [] then y else x @ lit ''/'' @ y) a ps),
      path_exists = (\<lambda>p. present), cpu_count = Some 8, repr = (\<lambda>p. [39] @ p @ [39]),
      Llama_raises = (\<lambda>a. None), render_template = (\<lambda>name. Inr (lit ''<html></html>''))\<rparr>"

definition stub_server :: server where
  "stub_server =
     \<lparr>llm = llm_args (stub_host True), sys_stdout = Console, sys_stderr = Console,
      trace = [Construct (llm_args (stub_host True))]\<rparr>"

section \<open>Facts about trimming\<close>

lemma rstrip_split:
  "l = rev (dropWhile P (rev l)) @ rev (takeWhile P (rev l))"
proof -
  have "l = rev (rev l)" by simp
  also have "\<dots> = rev (takeWhile P (rev l) @ dropWhile P (rev l))"
    by (simp only: takeWhile_dropWhile_id)
  also have "\<dots> = rev (dropWhile P (rev l)) @ rev (takeWhile P (rev l))"
    by (rule rev_append)
  finally show ?thesis .
qed

lemma py_strip_unfold: "py_strip s = rev (dropWhile py_isspace (rev (dropWhile py_isspace s)))"
  by (simp add: py_strip_def py_rstrip_def py_lstrip_def)

lemma py_strip_Nil_iff: "py_strip s = [] \<longleftrightarrow> (\<forall>c\<in>set s. py_isspace c)"
proof
  assume "py_strip s = []"
  then have all: "\<forall>c\<in>set (dropWhile py_isspace s). py_isspace c"
    by (simp add: py_strip_unfold)
  have "dropWhile py_isspace s = []"
  proof (rule ccontr)
    assume ne: "dropWhile py_isspace s \<noteq> []"
    then have "\<not> py_isspace (hd (dropWhile py_isspace s))" by (rule hd_dropWhile)
    moreover have "hd (dropWhile py_isspace s) \<in> set (dropWhile py_isspace s)"
      using ne by (rule hd_in_set)
    ultimately show False using all by blast
  qed
  then show "\<forall>c\<in>set s. py_isspace c" by simp
next
  assume "\<forall>c\<in>set s. py_isspace c"
  then show "py_strip s = []"
    by (auto simp add: py_strip_unfold dest: set_dropWhileD)
qed

lemma py_strip_decomp:
  "\<exists>a b. s = a @ py_strip s @ b \<and> (\<forall>c\<in>set a. py_isspace c) \<and> (\<forall>c\<in>set b. py_isspace c)"
proof -
  let ?l = "dropWhile py_isspace s"
  let ?a = "takeWhile py_isspace s"
  let ?b = "rev (takeWhile py_isspace (rev ?l))"
  have 1: "s = ?a @ ?l" by simp
  have 2: "?l = py_strip s @ ?b"
    unfolding py_strip_unfold by (rule rstrip_split)
  have 3: "\<forall>c\<in>set ?a. py_isspace c"
    by (auto dest: set_takeWhileD)
  have 4: "\<forall>c\<in>set ?b. py_isspace c"
    by (auto dest: set_takeWhileD)
  have "s = ?a @ py_strip s @ ?b"
    using 1 2 by metis
  with 3 4 show ?thesis by blast
qed

lemma py_strip_ends:
  assumes "py_strip s \<noteq> []"
  shows "\<not> py_isspace (hd (py_strip s)) \<and> \<not> py_isspace (last (py_strip s))"
proof -
  let ?l = "dropWhile py_isspace s"
  let ?r = "dropWhile py_isspace (rev ?l)"
  have st: "py_strip s = rev ?r" by (rule py_strip_unfold)
  with assms have rne: "?r \<noteq> []" by simp
  then have "\<not> py_isspace (hd ?r)" by (rule hd_dropWhile)
  then have last: "\<not> py_isspace (last (py_strip s))" using rne st by (simp add: last_rev)
  have lne: "?l \<noteq> []"
  proof
    assume "?l = []"
    then have "?r = []" by (simp only: rev.simps dropWhile.simps)
    with rne show False by contradiction
  qed
  then have hl: "\<not> py_isspace (hd ?l)" by (rule hd_dropWhile)
  have "?l = rev ?r @ rev (takeWhile py_isspace (rev ?l))" by (rule rstrip_split)
  then have "hd ?l = hd (rev ?r)" using rne by (metis hd_append2 rev_is_Nil_conv)
  with hl st have "\<not> py_isspace (hd (py_strip s))" by simp
  with last show ?thesis by simp
qed

section \<open>Facts about the handler\<close>

lemma py_or_dict: "py_or (PDict kvs) (PDict []) = PDict kvs"
  by (simp add: py_or_def)

lemma first_choice_text_ok:
  assumes "map_of kvs (lit ''choices'') = Some (PList (PDict ch # rest))"
    and "map_of ch (lit ''text'') = Some (PStr t)"
  shows "first_choice_text (PDict kvs) = Inr (py_strip t)"
  using assms by (simp add: first_choice_text_def seq_index_def)

lemma chat_absent:
  assumes "map_of kvs (lit ''message'') = None"
  shows "chat eng s (Inr (PDict kvs)) = (Inr (jsonify_reply []), s)"
  using assms
  by (simp add: chat_def py_or_dict py_strip_unfold)

lemma chat_blank:
  assumes "map_of kvs (lit ''message'') = Some (PStr m)" and "py_strip m = []"
  shows "chat eng s (Inr (PDict kvs)) = (Inr (jsonify_reply []), s)"
  using assms
  by (simp add: chat_def py_or_dict)

lemma chat_nonblank:
  assumes "map_of kvs (lit ''message'') = Some (PStr m)" and "py_strip m \<noteq> []"
  shows "chat eng s (Inr (PDict kvs)) =
    (case eng (trace s)
            \<lparr>prompt = lit ''[INST] '' @ py_strip m @ lit '' [/INST]'', max_tokens = 256,
             stop = [lit ''[/INST]'']\<rparr> of
       Inl e \<Rightarrow>
         (Inl e, s\<lparr>trace := trace s @
            [Invoke \<lparr>prompt = lit ''[INST] '' @ py_strip m @ lit '' [/INST]'', max_tokens = 256,
                     stop = [lit ''[/INST]'']\<rparr>]\<rparr>)
     | Inr resp \<Rightarrow>
         (case first_choice_text resp of
            Inl e \<Rightarrow>
              (Inl e, s\<lparr>trace := trace s @
                 [Invoke \<lparr>prompt = lit ''[INST] '' @ py_strip m @ lit '' [/INST]'',
                          max_tokens = 256, stop = [lit ''[/INST]'']\<rparr>]\<rparr>)
          | Inr reply \<Rightarrow>
              (Inr (jsonify_reply reply), s\<lparr>trace := trace s @
                 [Invoke \<lparr>prompt = lit ''[INST] '' @ py_strip m @ lit '' [/INST]'',
                          max_tokens = 256, stop = [lit ''[/INST]'']\<rparr>]\<rparr>)))"
  using assms
  by (simp add: chat_def py_or_dict Let_def)

lemma chat_not_string:
  assumes "map_of kvs (lit ''message'') = Some v" and "\<forall>m. v \<noteq> PStr m"
  shows "chat eng s (Inr (PDict kvs)) = (Inl AttributeError, s)"
  using assms
  by (cases v) (simp_all add: chat_def py_or_dict)

lemma chat_trace_cases:
  "snd (chat eng s got) = s \<or>
   (\<exists>p. snd (chat eng s got) =
      s\<lparr>trace := trace s @ [Invoke \<lparr>prompt = p, max_tokens = 256, stop = [lit ''[/INST]'']\<rparr>]\<rparr>)"
  by (auto simp add: chat_def Let_def split: sum.splits)

lemma chat_stub_engine:
  assumes "map_of kvs (lit ''message'') = Some (PStr m)" and "py_strip m \<noteq> []"
  shows "chat (stub_engine t) s (Inr (PDict kvs)) =
    (Inr (jsonify_reply (py_strip t)),
     s\<lparr>trace := trace s @
        [Invoke \<lparr>prompt = lit ''[INST] '' @ py_strip m @ lit '' [/INST]'', max_tokens = 256,
                 stop = [lit ''[/INST]'']\<rparr>]\<rparr>)"
  using chat_nonblank [OF assms, of "stub_engine t" s]
  by (simp add: stub_engine_def first_choice_text_ok)

lemma strip_Hello: "py_strip (lit ''Hello'') = lit ''Hello''"
  by (simp add: py_strip_unfold lit_def py_isspace_def)

lemma lit_Hello_nonempty: "lit ''Hello'' \<noteq> []"
  by (simp add: lit_def)

lemma message_Hello:
  "map_of [(lit ''message'', PStr (lit ''Hello''))] (lit ''message'') = Some (PStr (lit ''Hello''))"
  by simp

lemma message_question:
  "map_of [(lit ''message'', PStr (lit ''What is 2+2?''))] (lit ''message'') =
     Some (PStr (lit ''What is 2+2?''))"
  by simp

lemma strip_question: "py_strip (lit ''What is 2+2?'') = lit ''What is 2+2?''"
  by (simp add: py_strip_unfold lit_def py_isspace_def)

lemma strip_padded_4: "py_strip (lit ''  4  '') = lit ''4''"
  by (simp add: py_strip_unfold lit_def py_isspace_def)

lemma constructions_append: "constructions (xs @ ys) = constructions xs @ constructions ys"
  by (induction xs rule: constructions.induct) simp_all

lemma chat_frame:
  "llm (snd (chat eng s got)) = llm s \<and>
   constructions (trace (snd (chat eng s got))) = constructions (trace s)"
  using chat_trace_cases [of eng s got]
  by (auto simp add: constructions_append)

lemma dispatch_frame:
  "llm (snd (dispatch h eng s r)) = llm s \<and>
   constructions (trace (snd (dispatch h eng s r))) = constructions (trace s)"
  by (cases r) (simp_all add: dispatch_def chat_frame)

lemma app_run_frame:
  "llm (snd (app_run h eng s rs)) = llm s \<and>
   constructions (trace (snd (app_run h eng s rs))) = constructions (trace s)"
proof (induction rs arbitrary: s)
  case Nil
  show ?case by simp
next
  case (Cons r rs)
  obtain out s1 where d: "dispatch h eng s r = (out, s1)" by (cases "dispatch h eng s r")
  obtain outs s2 where a: "app_run h eng s1 rs = (outs, s2)" by (cases "app_run h eng s1 rs")
  from d have s1: "s1 = snd (dispatch h eng s r)" by simp
  from a have s2: "s2 = snd (app_run h eng s1 rs)" by simp
  have "snd (app_run h eng s (r # rs)) = s2" using d a by simp
  moreover have "llm s2 = llm s1 \<and> constructions (trace s2) = constructions (trace s1)"
    unfolding s2 by (rule Cons.IH)
  moreover have "llm s1 = llm s \<and> constructions (trace s1) = constructions (trace s)"
    unfolding s1 by (rule dispatch_frame)
  ultimately show ?case by simp
qed

lemma module_init_Inr:
  assumes "module_init h = Inr s"
  shows "s = \<lparr>llm = llm_args h, sys_stdout = Console, sys_stderr = Console,
              trace = [Construct (llm_args h)]\<rparr>"
  using assms
  by (auto simp add: module_init_def Let_def split: if_splits option.splits)

lemma prompt_Hello:
  "lit ''[INST] '' @ py_strip (lit ''Hello'') @ lit '' [/INST]'' = lit ''[INST] Hello [/INST]''"
  by (simp add: strip_Hello) (simp add: lit_def)

lemma stub_run:
  "main (stub_host True) (stub_engine (lit ''  4  ''))
     [PostChat (Inr (PDict [(lit ''message'', PStr (lit ''Hello''))])), GetIndex] =
   Inr ([Inr (jsonify_reply (py_strip (lit ''  4  ''))),
         Inr \<lparr>status = 200, content = Html (lit ''<html></html>'')\<rparr>],
        stub_server\<lparr>trace := trace stub_server @
          [Invoke \<lparr>prompt = lit ''[INST] '' @ py_strip (lit ''Hello'') @ lit '' [/INST]'',
                   max_tokens = 256, stop = [lit ''[/INST]'']\<rparr>]\<rparr>)"
proof -
  have i: "module_init (stub_host True) = Inr stub_server"
    by (simp add: module_init_def stub_server_def stub_host_def Let_def)
  have m: "is_main (stub_host True)" by (simp add: stub_host_def)
  have ne: "py_strip (lit ''Hello'') \<noteq> []"
    by (simp add: strip_Hello lit_Hello_nonempty)
  have x: "index (stub_host True) = Inr \<lparr>status = 200, content = Html (lit ''<html></html>'')\<rparr>"
    by (simp add: index_def stub_host_def)
  show ?thesis
    by (simp add: main_def i m dispatch_def chat_stub_engine [OF message_Hello ne] x)
qed

section \<open>Properties of the specification\<close>

text \<open>
  C1. A body that is an object whose \<^verbatim>\<open>message\<close> is absent, empty or made of white
  space only is answered with exactly \<^verbatim>\<open>{"reply": ""}\<close> and status 200, whatever the
  engine would do: the state is the one before, so nothing was added to the recording
  of calls, and the session was not invoked.
\<close>

theorem chat_blank_message_empty_reply:
  assumes "map_of kvs (lit ''message'') = None \<or>
           (\<exists>m. map_of kvs (lit ''message'') = Some (PStr m) \<and> (\<forall>c\<in>set m. py_isspace c))"
  shows "chat eng s (Inr (PDict kvs)) =
           (Inr \<lparr>status = 200, content = Json (PDict [(lit ''reply'', PStr [])])\<rparr>, s)"
proof -
  from assms have "chat eng s (Inr (PDict kvs)) = (Inr (jsonify_reply []), s)"
    by (auto simp add: chat_absent chat_blank py_strip_Nil_iff)
  then show ?thesis by (simp add: jsonify_reply_def)
qed

theorem chat_blank_message_empty_reply_witness:
  "(map_of [(lit ''message'', PStr (lit ''   ''))] (lit ''message'') = None \<or>
    (\<exists>m. map_of [(lit ''message'', PStr (lit ''   ''))] (lit ''message'') = Some (PStr m) \<and>
         (\<forall>c\<in>set m. py_isspace c))) \<and>
   chat (failing_engine TypeError) stub_server (Inr (PDict [(lit ''message'', PStr (lit ''   ''))])) =
     (Inr \<lparr>status = 200, content = Json (PDict [(lit ''reply'', PStr [])])\<rparr>, stub_server)"
proof -
  have h: "map_of [(lit ''message'', PStr (lit ''   ''))] (lit ''message'') = None \<or>
    (\<exists>m. map_of [(lit ''message'', PStr (lit ''   ''))] (lit ''message'') = Some (PStr m) \<and>
         (\<forall>c\<in>set m. py_isspace c))"
    by (simp add: lit_def py_isspace_def)
  from h chat_blank_message_empty_reply [OF h, of "failing_engine TypeError" stub_server]
  show ?thesis by (rule conjI)
qed

text \<open>
  C2. For a message that is not empty after trimming, the handler makes one call, and its
  prompt is \<^verbatim>\<open>[INST] \<close>, the trimmed message, \<^verbatim>\<open> [/INST]\<close>. For \<^verbatim>\<open>Hello\<close> the prompt is
  \<^verbatim>\<open>[INST] Hello [/INST]\<close>.
\<close>

theorem chat_prompt_wraps_trimmed_message:
  assumes "map_of kvs (lit ''message'') = Some (PStr m)" and "py_strip m \<noteq> []"
  shows "\<exists>c. trace (snd (chat eng s (Inr (PDict kvs)))) = trace s @ [Invoke c] \<and>
             prompt c = lit ''[INST] '' @ py_strip m @ lit '' [/INST]''"
  using chat_nonblank [OF assms, of eng s]
  by (auto split: sum.splits)

theorem chat_prompt_wraps_trimmed_message_witness:
  "map_of [(lit ''message'', PStr (lit ''Hello''))] (lit ''message'') = Some (PStr (lit ''Hello'')) \<and>
   py_strip (lit ''Hello'') \<noteq> [] \<and>
   (\<exists>c. trace (snd (chat (stub_engine (lit ''Hi'')) stub_server
                     (Inr (PDict [(lit ''message'', PStr (lit ''Hello''))])))) =
          trace stub_server @ [Invoke c] \<and>
        prompt c = lit ''[INST] Hello [/INST]'')"
proof -
  have h2: "py_strip (lit ''Hello'') \<noteq> []"
    by (simp add: strip_Hello lit_Hello_nonempty)
  from prompt_Hello chat_prompt_wraps_trimmed_message
         [OF message_Hello h2, of "stub_engine (lit ''Hi'')" stub_server] message_Hello h2
  show ?thesis by simp
qed

text \<open>
  C3. Whenever a run of the handler adds to the recording of calls, it adds exactly one
  call, with \<^verbatim>\<open>max_tokens\<close> 256 and the single stop sequence \<^verbatim>\<open>[/INST]\<close>; and when the
  engine answers that call with an object whose \<^verbatim>\<open>choices\<close> list starts with a choice
  of text \<open>t\<close>, the reply is made from \<open>t\<close>, whatever the other choices are.
\<close>

theorem chat_invocation_arguments:
  assumes "chat eng s got = (out, s')" and "trace s' \<noteq> trace s"
  shows "\<exists>c. trace s' = trace s @ [Invoke c] \<and> max_tokens c = 256 \<and> stop c = [lit ''[/INST]''] \<and>
           (\<forall>kvs ch rest t.
              eng (trace s) c = Inr (PDict kvs) \<and>
              map_of kvs (lit ''choices'') = Some (PList (PDict ch # rest)) \<and>
              map_of ch (lit ''text'') = Some (PStr t) \<longrightarrow>
              out = Inr \<lparr>status = 200, content = Json (PDict [(lit ''reply'', PStr (py_strip t))])\<rparr>)"
  using assms
  by (auto simp add: chat_def Let_def first_choice_text_ok jsonify_reply_def
           split: sum.splits if_splits)

theorem chat_invocation_arguments_witness:
  "trace (snd (chat (stub_engine (lit ''Hi'')) stub_server
                 (Inr (PDict [(lit ''message'', PStr (lit ''Hello''))])))) \<noteq> trace stub_server \<and>
   (\<exists>c. trace (snd (chat (stub_engine (lit ''Hi'')) stub_server
                 (Inr (PDict [(lit ''message'', PStr (lit ''Hello''))])))) =
           trace stub_server @ [Invoke c] \<and>
         max_tokens c = 256 \<and> stop c = [lit ''[/INST]''] \<and>
         (\<forall>kvs ch rest t.
            stub_engine (lit ''Hi'') (trace stub_server) c = Inr (PDict kvs) \<and>
            map_of kvs (lit ''choices'') = Some (PList (PDict ch # rest)) \<and>
            map_of ch (lit ''text'') = Some (PStr t) \<longrightarrow>
            fst (chat (stub_engine (lit ''Hi'')) stub_server
                   (Inr (PDict [(lit ''message'', PStr (lit ''Hello''))]))) =
              Inr \<lparr>status = 200, content = Json (PDict [(lit ''reply'', PStr (py_strip t))])\<rparr>))"
  (is "trace (snd ?r) \<noteq> _ \<and> _")
proof -
  have eq: "?r = (fst ?r, snd ?r)" by simp
  have "py_strip (lit ''Hello'') \<noteq> []"
    by (simp add: strip_Hello lit_Hello_nonempty)
  then have ne: "trace (snd ?r) \<noteq> trace stub_server"
    by (simp add: chat_stub_engine [OF message_Hello])
  from ne chat_invocation_arguments [OF eq ne] show ?thesis by (rule conjI)
qed

text \<open>
  C4. For a message that is not empty after trimming, when the engine answers the call
  with an object whose first choice has the text \<open>t\<close>, the response has status 200 and
  its \<^verbatim>\<open>reply\<close> is \<open>t\<close> trimmed: \<open>t\<close> is white space, the reply, white space, and a reply
  that is not empty neither starts nor ends with white space. With the answer
  \<^verbatim>\<open>"  4  "\<close> to \<^verbatim>\<open>What is 2+2?\<close> the response is \<^verbatim>\<open>{"reply": "4"}\<close>.
\<close>

theorem chat_reply_is_trimmed_completion:
  assumes "map_of kvs (lit ''message'') = Some (PStr m)" and "py_strip m \<noteq> []"
    and "eng (trace s) \<lparr>prompt = lit ''[INST] '' @ py_strip m @ lit '' [/INST]'', max_tokens = 256,
                        stop = [lit ''[/INST]'']\<rparr> = Inr (PDict resp)"
    and "map_of resp (lit ''choices'') = Some (PList (PDict ch # rest))"
    and "map_of ch (lit ''text'') = Some (PStr t)"
  shows "fst (chat eng s (Inr (PDict kvs))) =
           Inr \<lparr>status = 200, content = Json (PDict [(lit ''reply'', PStr (py_strip t))])\<rparr> \<and>
         (\<exists>a b. t = a @ py_strip t @ b \<and> (\<forall>c\<in>set a. py_isspace c) \<and> (\<forall>c\<in>set b. py_isspace c)) \<and>
         (py_strip t \<noteq> [] \<longrightarrow>
            \<not> py_isspace (hd (py_strip t)) \<and> \<not> py_isspace (last (py_strip t)))"
proof -
  have "first_choice_text (PDict resp) = Inr (py_strip t)"
    using assms(4,5) by (rule first_choice_text_ok)
  then have "fst (chat eng s (Inr (PDict kvs))) = Inr (jsonify_reply (py_strip t))"
    using chat_nonblank [OF assms(1,2), of eng s] assms(3) by simp
  then show ?thesis
    using py_strip_decomp [of t] py_strip_ends [of t] by (simp add: jsonify_reply_def)
qed

theorem chat_reply_is_trimmed_completion_witness:
  "map_of [(lit ''message'', PStr (lit ''What is 2+2?''))] (lit ''message'') =
     Some (PStr (lit ''What is 2+2?'')) \<and>
   py_strip (lit ''What is 2+2?'') \<noteq> [] \<and>
   stub_engine (lit ''  4  '') (trace stub_server)
     \<lparr>prompt = lit ''[INST] '' @ py_strip (lit ''What is 2+2?'') @ lit '' [/INST]'',
      max_tokens = 256, stop = [lit ''[/INST]'']\<rparr> =
     Inr (PDict [(lit ''choices'', PList [PDict [(lit ''text'', PStr (lit ''  4  ''))]])]) \<and>
   fst (chat (stub_engine (lit ''  4  '')) stub_server
          (Inr (PDict [(lit ''message'', PStr (lit ''What is 2+2?''))]))) =
     Inr \<lparr>status = 200, content = Json (PDict [(lit ''reply'', PStr (lit ''4''))])\<rparr>"
proof -
  have h2: "py_strip (lit ''What is 2+2?'') \<noteq> []"
    by (simp add: strip_question) (simp add: lit_def)
  have h3: "stub_engine (lit ''  4  '') (trace stub_server)
     \<lparr>prompt = lit ''[INST] '' @ py_strip (lit ''What is 2+2?'') @ lit '' [/INST]'',
      max_tokens = 256, stop = [lit ''[/INST]'']\<rparr> =
     Inr (PDict [(lit ''choices'', PList [PDict [(lit ''text'', PStr (lit ''  4  ''))]])])"
    by (simp add: stub_engine_def)
  have h4: "map_of [(lit ''choices'', PList [PDict [(lit ''text'', PStr (lit ''  4  ''))]])]
              (lit ''choices'') = Some (PList (PDict [(lit ''text'', PStr (lit ''  4  ''))] # []))"
    by simp
  have h5: "map_of [(lit ''text'', PStr (lit ''  4  ''))] (lit ''text'') = Some (PStr (lit ''  4  ''))"
    by simp
  have "fst (chat (stub_engine (lit ''  4  '')) stub_server
          (Inr (PDict [(lit ''message'', PStr (lit ''What is 2+2?''))]))) =
     Inr \<lparr>status = 200, content = Json (PDict [(lit ''reply'', PStr (py_strip (lit ''  4  '')))])\<rparr>"
    using chat_reply_is_trimmed_completion
            [where eng = "stub_engine (lit ''  4  '')" and s = stub_server,
             OF message_question h2 h3 h4 h5]
    by (rule conjunct1)
  then have c: "fst (chat (stub_engine (lit ''  4  '')) stub_server
          (Inr (PDict [(lit ''message'', PStr (lit ''What is 2+2?''))]))) =
     Inr \<lparr>status = 200, content = Json (PDict [(lit ''reply'', PStr (lit ''4''))])\<rparr>"
    by (simp only: strip_padded_4)
  from message_question h2 h3 c show ?thesis by (intro conjI)
qed

text \<open>
  C5. When no file exists at the model path (\<^verbatim>\<open>models/llama-2-7b-chat.Q4_K_M.gguf\<close> beside
  the module), the module body raises: the process ends with that exception (Python's
  \<^verbatim>\<open>FileNotFoundError\<close>, the configuration failure of the missing model file) whatever
  requests are waiting, so no session is built and no request is answered.
\<close>

theorem missing_model_stops_startup:
  assumes "\<not> path_exists h (MODEL_PATH h)"
  shows "module_init h =
           Inl (FileNotFoundError (lit ''Cannot find model at '' @ repr h (MODEL_PATH h))) \<and>
         main h eng rs =
           Inl (FileNotFoundError (lit ''Cannot find model at '' @ repr h (MODEL_PATH h)))"
  using assms by (simp add: module_init_def main_def)

theorem missing_model_stops_startup_witness:
  "\<not> path_exists (stub_host False) (MODEL_PATH (stub_host False)) \<and>
   module_init (stub_host False) =
     Inl (FileNotFoundError (lit ''Cannot find model at '' @
            repr (stub_host False) (MODEL_PATH (stub_host False)))) \<and>
   main (stub_host False) (stub_engine (lit ''Hi''))
        [PostChat (Inr (PDict [(lit ''message'', PStr (lit ''Hello''))])), GetIndex] =
     Inl (FileNotFoundError (lit ''Cannot find model at '' @
            repr (stub_host False) (MODEL_PATH (stub_host False))))"
proof -
  have h: "\<not> path_exists (stub_host False) (MODEL_PATH (stub_host False))"
    by (simp add: stub_host_def)
  from h missing_model_stops_startup [OF h] show ?thesis by (rule conjI)
qed

text \<open>
  C6. For every string \<open>m\<close> (the non-empty ones in particular), a body whose \<^verbatim>\<open>message\<close>
  is \<open>m\<close> is answered with status 200 and an object whose \<^verbatim>\<open>reply\<close> is a string, provided
  the engine succeeds on the request served: when \<open>m\<close> is not empty after trimming, the
  engine answers the one call the handler makes for \<open>m\<close> with an object whose
  \<^verbatim>\<open>choices\<close> list starts with a choice that has a string \<^verbatim>\<open>text\<close>. Nothing is asked
  of the engine on any other call.
\<close>

theorem chat_string_message_string_reply:
  assumes "map_of kvs (lit ''message'') = Some (PStr m)"
    and "py_strip m \<noteq> [] \<longrightarrow>
         (\<exists>resp ch rest t.
            eng (trace s) \<lparr>prompt = lit ''[INST] '' @ py_strip m @ lit '' [/INST]'',
                            max_tokens = 256, stop = [lit ''[/INST]'']\<rparr> = Inr (PDict resp) \<and>
            map_of resp (lit ''choices'') = Some (PList (PDict ch # rest)) \<and>
            map_of ch (lit ''text'') = Some (PStr t))"
  shows "\<exists>r. fst (chat eng s (Inr (PDict kvs))) =
               Inr \<lparr>status = 200, content = Json (PDict [(lit ''reply'', PStr r)])\<rparr>"
proof (cases "py_strip m = []")
  case True
  with assms(1) have "chat eng s (Inr (PDict kvs)) = (Inr (jsonify_reply []), s)"
    by (rule chat_blank)
  then show ?thesis by (simp add: jsonify_reply_def)
next
  case False
  let ?c = "\<lparr>prompt = lit ''[INST] '' @ py_strip m @ lit '' [/INST]'', max_tokens = 256,
             stop = [lit ''[/INST]'']\<rparr>"
  from assms(2) False obtain resp ch rest t where
    e: "eng (trace s) ?c = Inr (PDict resp)" and
    c: "map_of resp (lit ''choices'') = Some (PList (PDict ch # rest))" and
    t: "map_of ch (lit ''text'') = Some (PStr t)"
    by blast
  have "first_choice_text (PDict resp) = Inr (py_strip t)"
    using c t by (rule first_choice_text_ok)
  then have "fst (chat eng s (Inr (PDict kvs))) = Inr (jsonify_reply (py_strip t))"
    using chat_nonblank [OF assms(1) False, of eng s] e by simp
  then show ?thesis by (simp add: jsonify_reply_def)
qed

theorem chat_string_message_string_reply_witness:
  "map_of [(lit ''message'', PStr (lit ''Hello''))] (lit ''message'') = Some (PStr (lit ''Hello'')) \<and>
   py_strip (lit ''Hello'') \<noteq> [] \<and>
   (\<exists>resp ch rest t.
      picky_engine
        \<lparr>prompt = lit ''[INST] '' @ py_strip (lit ''Hello'') @ lit '' [/INST]'',
         max_tokens = 256, stop = [lit ''[/INST]'']\<rparr>
        (lit ''Hi'') (trace stub_server)
        \<lparr>prompt = lit ''[INST] '' @ py_strip (lit ''Hello'') @ lit '' [/INST]'',
         max_tokens = 256, stop = [lit ''[/INST]'']\<rparr> = Inr (PDict resp) \<and>
      map_of resp (lit ''choices'') = Some (PList (PDict ch # rest)) \<and>
      map_of ch (lit ''text'') = Some (PStr t)) \<and>
   picky_engine
     \<lparr>prompt = lit ''[INST] '' @ py_strip (lit ''Hello'') @ lit '' [/INST]'',
      max_tokens = 256, stop = [lit ''[/INST]'']\<rparr>
     (lit ''Hi'') (trace stub_server)
     \<lparr>prompt = [], max_tokens = 256, stop = [lit ''[/INST]'']\<rparr> =
     Inl (OtherError (lit ''RuntimeError'')) \<and>
   (\<exists>r. fst (chat (picky_engine
                     \<lparr>prompt = lit ''[INST] '' @ py_strip (lit ''Hello'') @ lit '' [/INST]'',
                      max_tokens = 256, stop = [lit ''[/INST]'']\<rparr>
                     (lit ''Hi''))
               stub_server (Inr (PDict [(lit ''message'', PStr (lit ''Hello''))]))) =
         Inr \<lparr>status = 200, content = Json (PDict [(lit ''reply'', PStr r)])\<rparr>)"
  (is "_ \<and> _ \<and> ?H \<and> ?F \<and> ?C")
proof -
  have ne: "py_strip (lit ''Hello'') \<noteq> []"
    by (simp add: strip_Hello lit_Hello_nonempty)
  have h: ?H
    by (simp add: picky_engine_def stub_engine_def)
  have f: ?F
    by (simp add: picky_engine_def prompt_Hello) (simp add: lit_def)
  from h have "py_strip (lit ''Hello'') \<noteq> [] \<longrightarrow> ?H" by (rule impI)
  with message_Hello have c: ?C
    by (rule chat_string_message_string_reply)
  from message_Hello ne h f c show ?thesis by (intro conjI)
qed

text \<open>
  C7. In every run of the process that gets past start-up, whatever requests follow, the
  constructor was called exactly once, with context length 2048, temperature 0.7 and
  the host's processor count as thread count; the session is still the one built at
  start-up at the end of the run; and no run of the chat handler changes it.
\<close>

theorem session_built_once_and_never_changed:
  assumes "main h eng rs = Inr (outs, s)"
  shows "constructions (trace s) = [llm_args h] \<and> llm s = llm_args h \<and>
         n_ctx (llm s) = 2048 \<and> temperature (llm s) = 7 / 10 \<and> n_threads (llm s) = cpu_count h \<and>
         llm (snd (chat eng s0 got)) = llm s0"
proof -
  from assms obtain s1 where i: "module_init h = Inr s1"
    and r: "(outs, s) = (if is_main h then app_run h eng s1 rs else ([], s1))"
    by (auto simp add: main_def split: sum.splits if_splits)
  have s1: "llm s1 = llm_args h \<and> constructions (trace s1) = [llm_args h]"
    using module_init_Inr [OF i] by simp
  have "llm s = llm s1 \<and> constructions (trace s) = constructions (trace s1)"
  proof (cases "is_main h")
    case True
    with r have "s = snd (app_run h eng s1 rs)" by (metis snd_conv)
    then show ?thesis by (simp only: app_run_frame)
  next
    case False
    with r show ?thesis by simp
  qed
  with s1 have "llm s = llm_args h \<and> constructions (trace s) = [llm_args h]" by simp
  then show ?thesis by (simp add: llm_args_def chat_frame)
qed

theorem session_built_once_and_never_changed_witness:
  "main (stub_host True) (stub_engine (lit ''  4  ''))
     [PostChat (Inr (PDict [(lit ''message'', PStr (lit ''Hello''))])), GetIndex] =
   Inr ([Inr (jsonify_reply (py_strip (lit ''  4  ''))),
         Inr \<lparr>status = 200, content = Html (lit ''<html></html>'')\<rparr>],
        stub_server\<lparr>trace := trace stub_server @
          [Invoke \<lparr>prompt = lit ''[INST] '' @ py_strip (lit ''Hello'') @ lit '' [/INST]'',
                   max_tokens = 256, stop = [lit ''[/INST]'']\<rparr>]\<rparr>) \<and>
   (constructions (trace (stub_server\<lparr>trace := trace stub_server @
          [Invoke \<lparr>prompt = lit ''[INST] '' @ py_strip (lit ''Hello'') @ lit '' [/INST]'',
                   max_tokens = 256, stop = [lit ''[/INST]'']\<rparr>]\<rparr>)) = [llm_args (stub_host True)] \<and>
    llm (stub_server\<lparr>trace := trace stub_server @
          [Invoke \<lparr>prompt = lit ''[INST] '' @ py_strip (lit ''Hello'') @ lit '' [/INST]'',
                   max_tokens = 256, stop = [lit ''[/INST]'']\<rparr>]\<rparr>) = llm_args (stub_host True) \<and>
    n_ctx (llm (stub_server\<lparr>trace := trace stub_server @
          [Invoke \<lparr>prompt = lit ''[INST] '' @ py_strip (lit ''Hello'') @ lit '' [/INST]'',
                   max_tokens = 256, stop = [lit ''[/INST]'']\<rparr>]\<rparr>)) = 2048 \<and>
    temperature (llm (stub_server\<lparr>trace := trace stub_server @
          [Invoke \<lparr>prompt = lit ''[INST] '' @ py_strip (lit ''Hello'') @ lit '' [/INST]'',
                   max_tokens = 256, stop = [lit ''[/INST]'']\<rparr>]\<rparr>)) = 7 / 10 \<and>
    n_threads (llm (stub_server\<lparr>trace := trace stub_server @
          [Invoke \<lparr>prompt = lit ''[INST] '' @ py_strip (lit ''Hello'') @ lit '' [/INST]'',
                   max_tokens = 256, stop = [lit ''[/INST]'']\<rparr>]\<rparr>)) = cpu_count (stub_host True) \<and>
    llm (snd (chat (stub_engine (lit ''  4  '')) stub_server (Inr PNone))) = llm stub_server)"
  using stub_run session_built_once_and_never_changed [OF stub_run, of stub_server "Inr PNone"]
  by (rule conjI)

text \<open>
  C8. For a message that is not empty after trimming, when the engine raises \<open>e\<close> on the
  call, the handler returns no response: \<open>e\<close> itself leaves the handler, and the
  recording holds the one call that failed, so nothing was tried again.
\<close>

theorem chat_engine_failure_propagates:
  assumes "map_of kvs (lit ''message'') = Some (PStr m)" and "py_strip m \<noteq> []"
    and "eng (trace s) \<lparr>prompt = lit ''[INST] '' @ py_strip m @ lit '' [/INST]'', max_tokens = 256,
                        stop = [lit ''[/INST]'']\<rparr> = Inl e"
  shows "chat eng s (Inr (PDict kvs)) =
           (Inl e,
            s\<lparr>trace := trace s @
               [Invoke \<lparr>prompt = lit ''[INST] '' @ py_strip m @ lit '' [/INST]'', max_tokens = 256,
                        stop = [lit ''[/INST]'']\<rparr>]\<rparr>)"
  using chat_nonblank [OF assms(1,2), of eng s] assms(3) by simp

theorem chat_engine_failure_propagates_witness:
  "map_of [(lit ''message'', PStr (lit ''Hello''))] (lit ''message'') = Some (PStr (lit ''Hello'')) \<and>
   py_strip (lit ''Hello'') \<noteq> [] \<and>
   failing_engine (OtherError (lit ''RuntimeError'')) (trace stub_server)
     \<lparr>prompt = lit ''[INST] '' @ py_strip (lit ''Hello'') @ lit '' [/INST]'', max_tokens = 256,
      stop = [lit ''[/INST]'']\<rparr> = Inl (OtherError (lit ''RuntimeError'')) \<and>
   chat (failing_engine (OtherError (lit ''RuntimeError''))) stub_server
        (Inr (PDict [(lit ''message'', PStr (lit ''Hello''))])) =
     (Inl (OtherError (lit ''RuntimeError'')),
      stub_server\<lparr>trace := trace stub_server @
         [Invoke \<lparr>prompt = lit ''[INST] '' @ py_strip (lit ''Hello'') @ lit '' [/INST]'',
                  max_tokens = 256, stop = [lit ''[/INST]'']\<rparr>]\<rparr>)"
proof -
  have h2: "py_strip (lit ''Hello'') \<noteq> []"
    by (simp add: strip_Hello lit_Hello_nonempty)
  have h3: "failing_engine (OtherError (lit ''RuntimeError'')) (trace stub_server)
     \<lparr>prompt = lit ''[INST] '' @ py_strip (lit ''Hello'') @ lit '' [/INST]'', max_tokens = 256,
      stop = [lit ''[/INST]'']\<rparr> = Inl (OtherError (lit ''RuntimeError''))"
    by (simp add: failing_engine_def)
  from message_Hello h2 h3
    chat_engine_failure_propagates
      [where eng = "failing_engine (OtherError (lit ''RuntimeError''))" and s = stub_server,
       OF message_Hello h2 h3]
  show ?thesis by (intro conjI)
qed

text \<open>
  C9. A parsed body that is false (\<^verbatim>\<open>None\<close>, \<^verbatim>\<open>False\<close>, zero, an empty string, list or
  object) is handled exactly as the empty object: the response is \<^verbatim>\<open>{"reply": ""}\<close> with
  status 200 and the state is unchanged, so the session was not invoked.
\<close>

theorem chat_falsy_body_as_empty_object:
  assumes "\<not> py_truthy parsed"
  shows "chat eng s (Inr parsed) = chat eng s (Inr (PDict [])) \<and>
         chat eng s (Inr parsed) =
           (Inr \<lparr>status = 200, content = Json (PDict [(lit ''reply'', PStr [])])\<rparr>, s)"
  using assms
  by (simp add: chat_def py_or_def py_strip_unfold jsonify_reply_def)

theorem chat_falsy_body_as_empty_object_witness:
  "\<not> py_truthy PNone \<and>
   chat (stub_engine (lit ''Hi'')) stub_server (Inr PNone) =
     chat (stub_engine (lit ''Hi'')) stub_server (Inr (PDict [])) \<and>
   chat (stub_engine (lit ''Hi'')) stub_server (Inr PNone) =
     (Inr \<lparr>status = 200, content = Json (PDict [(lit ''reply'', PStr [])])\<rparr>, stub_server)"
proof -
  have h: "\<not> py_truthy PNone" by simp
  from h chat_falsy_body_as_empty_object [OF h, of "stub_engine (lit ''Hi'')" stub_server]
  show ?thesis by (rule conjI)
qed

text \<open>
  C10. When \<^verbatim>\<open>message\<close> is present and not a string, trimming raises
  \<^verbatim>\<open>AttributeError\<close>, which leaves the handler with the state unchanged; and whenever
  the handler returns a response for an object body, \<^verbatim>\<open>message\<close> was absent or a string.
\<close>

theorem chat_message_not_a_string_raises:
  "(map_of kvs (lit ''message'') = Some v \<and> (\<forall>m. v \<noteq> PStr m) \<longrightarrow>
      chat eng s (Inr (PDict kvs)) = (Inl AttributeError, s)) \<and>
   (\<forall>r. fst (chat eng s (Inr (PDict kvs))) = Inr r \<longrightarrow>
      map_of kvs (lit ''message'') = None \<or> (\<exists>m. map_of kvs (lit ''message'') = Some (PStr m)))"
proof (intro conjI impI allI)
  assume "map_of kvs (lit ''message'') = Some v \<and> (\<forall>m. v \<noteq> PStr m)"
  then show "chat eng s (Inr (PDict kvs)) = (Inl AttributeError, s)"
    by (simp add: chat_not_string)
next
  fix r
  assume ok: "fst (chat eng s (Inr (PDict kvs))) = Inr r"
  show "map_of kvs (lit ''message'') = None \<or> (\<exists>m. map_of kvs (lit ''message'') = Some (PStr m))"
  proof (cases "map_of kvs (lit ''message'')")
    case None
    then show ?thesis by simp
  next
    case (Some w)
    show ?thesis
    proof (cases "\<exists>m. w = PStr m")
      case True
      with Some show ?thesis by auto
    next
      case False
      with Some have "chat eng s (Inr (PDict kvs)) = (Inl AttributeError, s)"
        by (simp add: chat_not_string)
      with ok show ?thesis by simp
    qed
  qed
qed

theorem chat_message_not_a_string_raises_witness:
  "map_of [(lit ''message'', PInt 42)] (lit ''message'') = Some (PInt 42) \<and>
   (\<forall>m. PInt 42 \<noteq> PStr m) \<and>
   chat (stub_engine (lit ''Hi'')) stub_server (Inr (PDict [(lit ''message'', PInt 42)])) =
     (Inl AttributeError, stub_server) \<and>
   fst (chat (stub_engine (lit ''Hi'')) stub_server
          (Inr (PDict [(lit ''message'', PStr (lit ''Hello''))]))) =
     Inr (jsonify_reply (lit ''Hi'')) \<and>
   (map_of [(lit ''message'', PStr (lit ''Hello''))] (lit ''message'') = None \<or>
    (\<exists>m. map_of [(lit ''message'', PStr (lit ''Hello''))] (lit ''message'') = Some (PStr m)))"
proof -
  have h1: "map_of [(lit ''message'', PInt 42)] (lit ''message'') = Some (PInt 42) \<and>
            (\<forall>m. PInt 42 \<noteq> PStr m)"
    by simp
  have a: "chat (stub_engine (lit ''Hi'')) stub_server (Inr (PDict [(lit ''message'', PInt 42)])) =
     (Inl AttributeError, stub_server)"
    using chat_message_not_a_string_raises
            [of "[(lit ''message'', PInt 42)]" "PInt 42" "stub_engine (lit ''Hi'')" stub_server] h1
    by blast
  have "py_strip (lit ''Hello'') \<noteq> []"
    by (simp add: strip_Hello lit_Hello_nonempty)
  then have h2: "fst (chat (stub_engine (lit ''Hi'')) stub_server
          (Inr (PDict [(lit ''message'', PStr (lit ''Hello''))]))) =
     Inr (jsonify_reply (py_strip (lit ''Hi'')))"
    by (simp add: chat_stub_engine [OF message_Hello])
  have "py_strip (lit ''Hi'') = lit ''Hi''"
    by (simp add: py_strip_unfold lit_def py_isspace_def)
  with h2 have h3: "fst (chat (stub_engine (lit ''Hi'')) stub_server
          (Inr (PDict [(lit ''message'', PStr (lit ''Hello''))]))) =
     Inr (jsonify_reply (lit ''Hi''))"
    by simp
  have b: "map_of [(lit ''message'', PStr (lit ''Hello''))] (lit ''message'') = None \<or>
    (\<exists>m. map_of [(lit ''message'', PStr (lit ''Hello''))] (lit ''message'') = Some (PStr m))"
    using chat_message_not_a_string_raises
            [of "[(lit ''message'', PStr (lit ''Hello''))]" PNone "stub_engine (lit ''Hi'')" stub_server] h3
    by blast
  from h1 a h3 b show ?thesis by blast
qed

end
